theory Spec2Isabelle
  imports Main
begin

section \<open>The ledger store (internal/models/models.go)\<close>

text \<open>
  The relational store is modelled as one record of tables. A table with a primary key
  that the program only reads and updates by key (\<open>Validator\<close>, \<open>PayoutTransaction\<close>) is
  a map from the key, the column \<open>ID\<close>, to the remaining columns; the \<open>Website\<close> table is enumerated by the dispatch loop and the
  \<open>WebsiteTick\<close> table is append-only, so both are lists of rows.

  The columns \<open>pending_payouts\<close>, \<open>amount\<close> (\<open>decimal(20,2)\<close>, read into
  \<open>float64\<close>) and \<open>latency\<close> hold whole lamports and whole milliseconds on every path
  of the program (the agent reports \<open>Duration.Milliseconds\<close>): a balance only changes by \<open>COST_PER_VALIDATION\<close>, by being reset to 0, or
  by a refund of a balance read earlier. They are integers here. The \<open>CreatedAt\<close> and
  \<open>UpdatedAt\<close> columns of \<open>Validator\<close> and \<open>Website\<close> play no part in the functions below
  and are left out.
\<close>

record Validator =
  PublicKey :: string
  Location :: string
  IP :: string
  PendingPayouts :: int

record Website =
  w_ID :: string
  URL :: string
  UserID :: string
  Disabled :: bool

record WebsiteTick =
  t_ID :: string
  t_WebsiteID :: string
  t_ValidatorID :: string
  t_Status :: string
  t_Latency :: int
  t_CreatedAt :: int

record PayoutTransaction =
  p_ValidatorID :: string
  p_Amount :: int
  p_Status :: string
  p_TxSignature :: string
  p_ErrorMessage :: string
  p_CreatedAt :: int
  p_UpdatedAt :: int

record store =
  validators :: "string \<rightharpoonup> Validator"
  websites :: "Website list"
  ticks :: "WebsiteTick list"
  payouts :: "string \<rightharpoonup> PayoutTransaction"

datatype db_error = ErrRecordNotFound | ErrDatabase

text \<open>
  \<open>tx.Create(&tick)\<close>: an INSERT into \<open>WebsiteTick\<close>. It fails on a fault of the
  database, on a duplicate primary key, and on a violated foreign key: the model
  declares \<open>WebsiteID\<close> and \<open>ValidatorID\<close> as foreign keys into \<open>Website\<close> and
  \<open>Validator\<close> (the \<open>gorm:"foreignKey:...;constraint:OnDelete:CASCADE"\<close> tags), and
  \<open>AutoMigrate\<close> creates these constraints.
\<close>

definition create_tick :: "bool \<Rightarrow> WebsiteTick \<Rightarrow> store \<Rightarrow> db_error + store" where
  "create_tick fault t s =
     (if fault then Inl ErrDatabase
      else if t_ID t \<in> set (map t_ID (ticks s)) then Inl ErrDatabase
      else if t_WebsiteID t \<notin> set (map w_ID (websites s)) then Inl ErrDatabase
      else if validators s (t_ValidatorID t) = None then Inl ErrDatabase
      else Inr (s\<lparr>ticks := ticks s @ [t]\<rparr>))"

text \<open>
  \<open>Model(&models.Validator{}).Where("id = ?", id).UpdateColumn("pending_payouts",
  gorm.Expr("pending_payouts + ?", amount))\<close>: an UPDATE by primary key. When no row
  has the key, no row changes and there is no error.
\<close>

definition add_pending :: "bool \<Rightarrow> string \<Rightarrow> int \<Rightarrow> store \<Rightarrow> db_error + store" where
  "add_pending fault vid amount s =
     (if fault then Inl ErrDatabase
      else (case validators s vid of
              None \<Rightarrow> Inr s
            | Some v \<Rightarrow>
                Inr (s\<lparr>validators :=
                  (validators s)(vid \<mapsto> v\<lparr>PendingPayouts := PendingPayouts v + amount\<rparr>)\<rparr>)))"

definition pending :: "store \<Rightarrow> string \<Rightarrow> int" where
  "pending s vid = (case validators s vid of None \<Rightarrow> 0 | Some v \<Rightarrow> PendingPayouts v)"

section \<open>The hub (cmd/hub/main.go)\<close>

definition COST_PER_VALIDATION :: int where
  "COST_PER_VALIDATION = 100"

record ValidateIncoming =
  vi_CallbackID :: string
  vi_Status :: string
  vi_Latency :: int
  vi_ValidatorID :: string
  vi_WebsiteID :: string
  vi_SignedMessage :: string

text \<open>
  The \<open>json.RawMessage\<close> of an inbound frame: either bytes that do not decode into
  \<open>ValidateIncoming\<close>, or the encoding of one.
\<close>

datatype RawMessage = Undecodable | ValidateJSON ValidateIncoming

fun unmarshal_validate :: "RawMessage \<Rightarrow> ValidateIncoming option" where
  "unmarshal_validate Undecodable = None"
| "unmarshal_validate (ValidateJSON v) = Some v"

record IncomingMessage =
  m_Type :: string
  m_Data :: RawMessage

text \<open>
  What the surroundings supply to one run of a reply handler: the fresh id of
  \<open>uuid.New()\<close>, the clock of \<open>time.Now()\<close>, and whether the database fails the
  INSERT, the UPDATE or the COMMIT.
\<close>

record tx_env =
  new_uuid :: string
  now :: int
  create_fault :: bool
  update_fault :: bool
  commit_fault :: bool

text \<open>
  \<open>createValidateCallback\<close>. The transaction works on its own copy of the store:
  \<open>Rollback\<close> and a failed \<open>Commit\<close> leave the store as it was, a successful
  \<open>Commit\<close> installs the copy.
\<close>

definition createValidateCallback ::
    "string \<Rightarrow> string \<Rightarrow> tx_env \<Rightarrow> IncomingMessage \<Rightarrow> store \<Rightarrow> store" where
  "createValidateCallback websiteID validatorPublicKey env msg s =
     (case unmarshal_validate (m_Data msg) of
        None \<Rightarrow> s
      | Some validate \<Rightarrow>
          (let tick = \<lparr>t_ID = new_uuid env, t_WebsiteID = websiteID,
                       t_ValidatorID = vi_ValidatorID validate,
                       t_Status = vi_Status validate,
                       t_Latency = vi_Latency validate,
                       t_CreatedAt = now env\<rparr>
           in case create_tick (create_fault env) tick s of
                Inl e \<Rightarrow> s
              | Inr tx1 \<Rightarrow>
                  (case add_pending (update_fault env) (vi_ValidatorID validate)
                          COST_PER_VALIDATION tx1 of
                     Inl e \<Rightarrow> s
                   | Inr tx2 \<Rightarrow> if commit_fault env then s else tx2)))"

text \<open>
  The replies handled over time: each is one run of the handler that
  \<open>startMonitoring\<close> registered for a website and a validator's public key, on the
  message of the reply, with what the surroundings supplied to that run.
\<close>

type_synonym reply_event = "string \<times> string \<times> tx_env \<times> IncomingMessage"

fun handle_replies :: "reply_event list \<Rightarrow> store \<Rightarrow> store" where
  "handle_replies [] s = s"
| "handle_replies ((websiteID, validatorPublicKey, env, msg) # es) s =
     handle_replies es (createValidateCallback websiteID validatorPublicKey env msg s)"

definition results_for :: "store \<Rightarrow> string \<Rightarrow> nat" where
  "results_for s vid = length (filter (\<lambda>t. t_ValidatorID t = vid) (ticks s))"

text \<open>
  A run of the handler has recorded a Result for \<open>vid\<close> when the table of ticks has
  grown by one row and that row names \<open>vid\<close>.
\<close>

definition recorded_for :: "string \<Rightarrow> store \<Rightarrow> store \<Rightarrow> bool" where
  "recorded_for vid s s' =
     (length (ticks s') = Suc (length (ticks s)) \<and> t_ValidatorID (last (ticks s')) = vid)"

fun count_recorded :: "string \<Rightarrow> reply_event list \<Rightarrow> store \<Rightarrow> nat" where
  "count_recorded vid [] s = 0"
| "count_recorded vid ((websiteID, validatorPublicKey, env, msg) # es) s =
     (let s' = createValidateCallback websiteID validatorPublicKey env msg s
      in (if recorded_for vid s s' then 1 else 0) + count_recorded vid es s')"

subsection \<open>The callback table and inbound replies\<close>

record ValidatorConnection =
  vc_ValidatorID :: string
  vc_PublicKey :: string
  vc_Conn :: nat

record ValidateTask =
  task_url :: string
  task_callbackId :: string
  task_websiteId :: string

record OutgoingMessage =
  o_Type :: string
  o_Data :: ValidateTask

text \<open>
  The effects of the dispatch loop on what it shares with the other goroutines, in the
  order in which the loop performs them: an insertion into \<open>h.callbacks\<close>, and a call of
  \<open>WriteJSON\<close> on a validator's connection (the connection is named by a number). The
  loop only logs whether \<open>WriteJSON\<close> returned an error, so the call itself is the event.
\<close>

datatype hub_event = Registered string | Written nat OutgoingMessage

text \<open>
  \<open>Hub\<close>: the store behind \<open>h.db\<close>, the map \<open>h.validators\<close> as the list of its
  entries (Go leaves the order of iteration open: nothing below depends on it), the
  map \<open>h.callbacks\<close> of closures, and the log of the loop's effects.
\<close>

record Hub =
  h_db :: store
  h_validators :: "(string \<times> ValidatorConnection) list"
  h_callbacks :: "string \<rightharpoonup> (tx_env \<Rightarrow> IncomingMessage \<Rightarrow> store \<Rightarrow> store)"
  h_log :: "hub_event list"

definition handleValidate :: "tx_env \<Rightarrow> RawMessage \<Rightarrow> Hub \<Rightarrow> Hub" where
  "handleValidate env data h =
     (case unmarshal_validate data of
        None \<Rightarrow> h
      | Some validate \<Rightarrow>
          (case h_callbacks h (vi_CallbackID validate) of
             None \<Rightarrow> h
           | Some callback \<Rightarrow>
               (let h1 = h\<lparr>h_db := callback env \<lparr>m_Type = ''validate'', m_Data = data\<rparr> (h_db h)\<rparr>
                in h1\<lparr>h_callbacks := (h_callbacks h1)(vi_CallbackID validate := None)\<rparr>)))"

subsection \<open>The dispatch loop\<close>

definition register_callback :: "string \<Rightarrow> string \<Rightarrow> string \<Rightarrow> Hub \<Rightarrow> Hub" where
  "register_callback callbackID websiteID validatorPublicKey h =
     h\<lparr>h_callbacks :=
         (h_callbacks h)(callbackID \<mapsto> createValidateCallback websiteID validatorPublicKey),
       h_log := h_log h @ [Registered callbackID]\<rparr>"

definition validate_task :: "Website \<Rightarrow> string \<Rightarrow> OutgoingMessage" where
  "validate_task website callbackID =
     \<lparr>o_Type = ''validate'',
      o_Data = \<lparr>task_url = URL website, task_callbackId = callbackID,
                task_websiteId = w_ID website\<rparr>\<rparr>"

definition write_task :: "ValidatorConnection \<Rightarrow> OutgoingMessage \<Rightarrow> Hub \<Rightarrow> Hub" where
  "write_task validator msg h = h\<lparr>h_log := h_log h @ [Written (vc_Conn validator) msg]\<rparr>"

text \<open>The body of the inner loop, for one website, one validator and one fresh uuid.\<close>

definition dispatch :: "Website \<Rightarrow> ValidatorConnection \<Rightarrow> string \<Rightarrow> Hub \<Rightarrow> Hub" where
  "dispatch website validator callbackID h =
     write_task validator (validate_task website callbackID)
       (register_callback callbackID (w_ID website) (vc_PublicKey validator) h)"

text \<open>
  The two nested loops. \<open>uuid k\<close> is what the \<open>k\<close>-th call of \<open>uuid.New()\<close> of the cycle
  returns; the loops thread the number of calls made so far.
\<close>

fun send_tasks ::
    "(nat \<Rightarrow> string) \<Rightarrow> Website \<Rightarrow> ValidatorConnection list \<Rightarrow> nat \<Rightarrow> Hub \<Rightarrow> Hub \<times> nat" where
  "send_tasks uuid website [] k h = (h, k)"
| "send_tasks uuid website (validator # rest) k h =
     send_tasks uuid website rest (Suc k) (dispatch website validator (uuid k) h)"

fun monitor_websites ::
    "(nat \<Rightarrow> string) \<Rightarrow> Website list \<Rightarrow> ValidatorConnection list \<Rightarrow> nat \<Rightarrow> Hub \<Rightarrow> Hub \<times> nat" where
  "monitor_websites uuid [] vs k h = (h, k)"
| "monitor_websites uuid (website # rest) vs k h =
     (case send_tasks uuid website vs k h of
        (h', k') \<Rightarrow> monitor_websites uuid rest vs k' h')"

definition active_websites :: "store \<Rightarrow> Website list" where
  "active_websites s = filter (\<lambda>w. Disabled w = False) (websites s)"

definition connected_validators :: "Hub \<Rightarrow> ValidatorConnection list" where
  "connected_validators h = map snd (h_validators h)"

text \<open>
  One cycle of \<open>startMonitoring\<close> (one tick of the 60 second ticker). \<open>find_fault\<close>
  says that the query for the active websites failed.
\<close>

definition startMonitoring_cycle :: "bool \<Rightarrow> (nat \<Rightarrow> string) \<Rightarrow> Hub \<Rightarrow> Hub" where
  "startMonitoring_cycle find_fault uuid h =
     (if find_fault then h
      else (let ws = active_websites (h_db h) in
            if length ws = 0 then h
            else (let vs = connected_validators h in
                  if length vs = 0 then h
                  else fst (monitor_websites uuid ws vs 0 h))))"

section \<open>The settlement request (internal/handlers/user/handler.go)\<close>

record PayoutRequest =
  r_ValidatorID :: string
  r_Amount :: int
  r_PublicKey :: string

text \<open>
  The body of a message of \<open>payout_queue\<close>: bytes that do not decode into a
  \<open>PayoutRequest\<close>, or the JSON of one. The queue is the list of its messages, oldest
  first.
\<close>

datatype QueueBody = Malformed | PayoutJSON PayoutRequest

fun unmarshal_payout :: "QueueBody \<Rightarrow> PayoutRequest option" where
  "unmarshal_payout Malformed = None"
| "unmarshal_payout (PayoutJSON r) = Some r"

text \<open>
  The HTTP answer: \<open>utils.ErrorResponse\<close> with its code and message, or
  \<open>utils.SuccessResponse\<close> with its code and the fields \<open>status\<close>, \<open>message\<close> and
  \<open>amount\<close> of its body.
\<close>

datatype response =
    ErrorResponse nat string
  | SuccessResponse nat string string int

text \<open>
  What can fail around one call of \<open>RequestPayout\<close>: the SELECT (other than by finding
  no row), \<open>json.Marshal\<close>, the publication on the queue, the UPDATE and the COMMIT.
\<close>

record payout_env =
  select_fault :: bool
  marshal_fault :: bool
  publish_fault :: bool
  reset_fault :: bool
  rp_commit_fault :: bool

text \<open>
  \<open>RequestPayout\<close>, on the store and the queue. The message is published while the
  transaction is still open: the queue is outside the transaction, so a \<open>Rollback\<close> or
  a failed \<open>Commit\<close> after the publication restores the store and leaves the message
  on the queue.
\<close>

definition RequestPayout ::
    "payout_env \<Rightarrow> string \<Rightarrow> store \<times> QueueBody list \<Rightarrow> response \<times> store \<times> QueueBody list" where
  "RequestPayout env validatorID sq =
     (case sq of (s, queue) \<Rightarrow>
        if select_fault env then (ErrorResponse 500 ''Database error'', s, queue)
        else (case validators s validatorID of
          None \<Rightarrow> (ErrorResponse 404 ''Validator not found'', s, queue)
        | Some validator \<Rightarrow>
            if PendingPayouts validator \<le> 0
            then (SuccessResponse 200 ''cleared'' ''all payment cleared'' 0, s, queue)
            else (let payoutReq = \<lparr>r_ValidatorID = validatorID,
                                    r_Amount = PendingPayouts validator,
                                    r_PublicKey = PublicKey validator\<rparr>
                  in if marshal_fault env
                     then (ErrorResponse 500 ''Failed to serialize request'', s, queue)
                     else if publish_fault env
                     then (ErrorResponse 500 ''Failed to queue payout'', s, queue)
                     else (let queue' = queue @ [PayoutJSON payoutReq] in
                           if reset_fault env
                           then (ErrorResponse 500 ''Failed to update balance'', s, queue')
                           else (let tx = s\<lparr>validators := (validators s)
                                        (validatorID \<mapsto> validator\<lparr>PendingPayouts := 0\<rparr>)\<rparr>
                                 in if rp_commit_fault env
                                    then (ErrorResponse 500 ''Failed to commit transaction'',
                                          s, queue')
                                    else (SuccessResponse 200 ''queued''
                                            ''Payout request queued for processing''
                                            (r_Amount payoutReq), tx, queue'))))))"

section \<open>The settlement worker (package services)\<close>

text \<open>
  \<open>executeSolanaTransfer\<close>: every step is a call into the Solana client. The
  surroundings give the error of each step that can fail (decoding the recipient key,
  fetching the latest blockhash, building the transaction, signing it), \<open>None\<close> when the
  step succeeds, and what the submission returns: an error or the signature. The amount
  only enters the transfer instruction, which is not modelled further.
\<close>

record solana_env =
  recipient_error :: "string \<Rightarrow> string option"
  blockhash_error :: "string option"
  build_error :: "string option"
  sign_error :: "string option"
  send_result :: "string + string"

definition executeSolanaTransfer :: "solana_env \<Rightarrow> string \<Rightarrow> int \<Rightarrow> string + string" where
  "executeSolanaTransfer sol recipientPublicKey lamports =
     (case recipient_error sol recipientPublicKey of
        Some e \<Rightarrow> Inl (''invalid recipient public key: '' @ e)
      | None \<Rightarrow>
     (case blockhash_error sol of
        Some e \<Rightarrow> Inl (''failed to get latest blockhash: '' @ e)
      | None \<Rightarrow>
     (case build_error sol of
        Some e \<Rightarrow> Inl (''failed to create transaction: '' @ e)
      | None \<Rightarrow>
     (case sign_error sol of
        Some e \<Rightarrow> Inl (''failed to sign transaction: '' @ e)
      | None \<Rightarrow>
     (case send_result sol of
        Inl e \<Rightarrow> Inl (''failed to send transaction: '' @ e)
      | Inr sig \<Rightarrow> Inr sig)))))"

text \<open>
  \<open>waitForConfirmation\<close>. The ticker fires every 2 seconds and the context ends after
  the timeout, so the loop sees a finite list of answers of \<open>GetSignatureStatuses\<close>, one
  per tick before the deadline, and then the deadline. An answer is an error of the
  call, no status for the signature, or a status with its confirmation level and its
  \<open>Err\<close> field.
\<close>

datatype ConfirmationStatus = Processed | Confirmed | Finalized

datatype poll =
    RpcError
  | NoStatus
  | SignatureStatus ConfirmationStatus "string option"

fun waitForConfirmation :: "poll list \<Rightarrow> bool \<times> string option" where
  "waitForConfirmation [] = (False, Some ''confirmation timeout'')"
| "waitForConfirmation (RpcError # rest) = waitForConfirmation rest"
| "waitForConfirmation (NoStatus # rest) = waitForConfirmation rest"
| "waitForConfirmation (SignatureStatus level err # rest) =
     (if level = Finalized then (True, None)
      else (case err of
              Some e \<Rightarrow> (False, Some (''transaction failed: '' @ e))
            | None \<Rightarrow> waitForConfirmation rest))"

text \<open>
  An answer after which the loop goes on to the next tick: an error of the call, no
  status, or a status that is neither finalized nor carries an error.
\<close>

definition undecided :: "poll \<Rightarrow> bool" where
  "undecided p = (case p of RpcError \<Rightarrow> True | NoStatus \<Rightarrow> True
     | SignatureStatus level err \<Rightarrow> level \<noteq> Finalized \<and> err = None)"

text \<open>
  What the surroundings supply to one run of \<open>processPayoutRequest\<close>: the uuid of the
  record, the readings of the clock, the Solana client, the answers to the polls, and
  whether the database fails the INSERT of the record, the UPDATE of the record or the
  UPDATE of the balance. The worker does not look at the result of the two UPDATEs.
\<close>

record worker_env =
  record_uuid :: string
  clock :: "nat \<Rightarrow> int"
  solana :: solana_env
  polls :: "poll list"
  insert_fault :: bool
  mark_fault :: bool
  refund_fault :: bool

datatype acknowledgement = Ack | Nack bool

text \<open>
  \<open>w.db.Create(txRecord)\<close>: \<open>ValidatorID\<close> is a foreign key into \<open>Validator\<close>, the id is
  the primary key.
\<close>

definition create_payout ::
    "bool \<Rightarrow> string \<Rightarrow> PayoutTransaction \<Rightarrow> store \<Rightarrow> db_error + store" where
  "create_payout fault pid p s =
     (if fault then Inl ErrDatabase
      else if payouts s pid \<noteq> None then Inl ErrDatabase
      else if validators s (p_ValidatorID p) = None then Inl ErrDatabase
      else Inr (s\<lparr>payouts := (payouts s)(pid \<mapsto> p)\<rparr>))"

text \<open>\<open>w.db.Model(txRecord).Updates(...)\<close>: an UPDATE of the record by its primary key.\<close>

definition update_payout ::
    "bool \<Rightarrow> string \<Rightarrow> (PayoutTransaction \<Rightarrow> PayoutTransaction) \<Rightarrow> store \<Rightarrow> db_error + store" where
  "update_payout fault pid f s =
     (if fault then Inl ErrDatabase
      else (case payouts s pid of
              None \<Rightarrow> Inr s
            | Some p \<Rightarrow> Inr (s\<lparr>payouts := (payouts s)(pid \<mapsto> f p)\<rparr>)))"

text \<open>A statement whose result the caller drops: on an error the store is as before.\<close>

definition dropped_result :: "store \<Rightarrow> db_error + store \<Rightarrow> store" where
  "dropped_result s r = (case r of Inl e \<Rightarrow> s | Inr s' \<Rightarrow> s')"

definition processPayoutRequest ::
    "worker_env \<Rightarrow> QueueBody \<Rightarrow> store \<Rightarrow> store \<times> acknowledgement" where
  "processPayoutRequest env body s =
     (case unmarshal_payout body of
        None \<Rightarrow> (s, Nack False)
      | Some req \<Rightarrow>
          (let txRecord = \<lparr>p_ValidatorID = r_ValidatorID req, p_Amount = r_Amount req,
                           p_Status = ''processing'', p_TxSignature = [],
                           p_ErrorMessage = [], p_CreatedAt = clock env 0,
                           p_UpdatedAt = clock env 1\<rparr>
           in case create_payout (insert_fault env) (record_uuid env) txRecord s of
                Inl e \<Rightarrow> (s, Nack True)
              | Inr s1 \<Rightarrow>
                  (case executeSolanaTransfer (solana env) (r_PublicKey req) (r_Amount req) of
                     Inl err \<Rightarrow>
                       (let s2 = dropped_result s1 (update_payout (mark_fault env) (record_uuid env)
                                   (\<lambda>p. p\<lparr>p_Status := ''failed'', p_ErrorMessage := err,
                                           p_UpdatedAt := clock env 2\<rparr>) s1);
                            s3 = dropped_result s2 (add_pending (refund_fault env)
                                   (r_ValidatorID req) (r_Amount req) s2)
                        in (s3, Nack False))
                   | Inr signature \<Rightarrow>
                       (case waitForConfirmation (polls env) of
                          (confirmed, err) \<Rightarrow>
                            if err \<noteq> None \<or> \<not> confirmed
                            then (dropped_result s1 (update_payout (mark_fault env) (record_uuid env)
                                    (\<lambda>p. p\<lparr>p_Status := ''failed'',
                                            p_ErrorMessage := ''Transaction confirmation timeout'',
                                            p_TxSignature := signature,
                                            p_UpdatedAt := clock env 2\<rparr>) s1),
                                  Nack False)
                            else (dropped_result s1 (update_payout (mark_fault env) (record_uuid env)
                                    (\<lambda>p. p\<lparr>p_Status := ''completed'',
                                            p_TxSignature := signature,
                                            p_UpdatedAt := clock env 2\<rparr>) s1),
                                  Ack)))))"

section \<open>The validator agent (the validator's main.go)\<close>

record ValidateData =
  d_URL :: string
  d_CallbackID :: string
  d_WebsiteID :: string

record http_Client =
  Timeout :: int

text \<open>
  The result of \<open>client.Get\<close>: a response with no error, or an error (with the response
  the library may hand back beside it). The library never returns neither.
\<close>

datatype get_result = GetOk int | GetErr "int option" string

definition Second :: int where
  "Second = 1000000000"

text \<open>\<open>Duration.Milliseconds\<close>: the nanoseconds divided by \<open>10^6\<close>, truncated towards 0.\<close>

definition Milliseconds :: "int \<Rightarrow> int" where
  "Milliseconds d = (if 0 \<le> d then d div 1000000 else - ((- d) div 1000000))"

text \<open>
  \<open>validateWebsite\<close>, up to the frame it writes to the hub. \<open>get\<close> is the HTTP client
  of the library, \<open>sign\<close> is \<open>signMessage\<close> with the agent's key, and \<open>elapsed\<close> is what
  \<open>time.Since(startTime)\<close> returns after the request.
\<close>

definition validateWebsite ::
    "(http_Client \<Rightarrow> string \<Rightarrow> get_result) \<Rightarrow> (string \<Rightarrow> string) \<Rightarrow> int \<Rightarrow> string \<Rightarrow>
       ValidateData \<Rightarrow> IncomingMessage" where
  "validateWebsite get sign elapsed validatorID data =
     (let client = \<lparr>Timeout = 10 * Second\<rparr>;
          r = get client (d_URL data);
          latency = Milliseconds elapsed;
          status = (case r of GetOk code \<Rightarrow> if code = 200 then ''Good'' else ''Bad''
                    | GetErr resp e \<Rightarrow> ''Bad'');
          signature = sign (''Replying to '' @ d_CallbackID data)
      in \<lparr>m_Type = ''validate'',
          m_Data = ValidateJSON
            \<lparr>vi_CallbackID = d_CallbackID data, vi_Status = status, vi_Latency = latency,
             vi_ValidatorID = validatorID, vi_WebsiteID = d_WebsiteID data,
             vi_SignedMessage = signature\<rparr>\<rparr>)"

section \<open>Example states\<close>

text \<open>
  Two validators with no pending credit, one active website, no ticks and no settlement
  records; the concrete inputs of the examples below are built from these.
\<close>

definition validator1 :: Validator where
  "validator1 = \<lparr>PublicKey = ''pk1'', Location = ''unknown'', IP = ''10.0.0.1'',
                 PendingPayouts = 0\<rparr>"

definition validator2 :: Validator where
  "validator2 = \<lparr>PublicKey = ''pk2'', Location = ''unknown'', IP = ''10.0.0.2'',
                 PendingPayouts = 0\<rparr>"

definition website1 :: Website where
  "website1 = \<lparr>w_ID = ''T1'', URL = ''https://t1.example'', UserID = ''U1'',
               Disabled = False\<rparr>"

definition store0 :: store where
  "store0 = \<lparr>validators = [''V1'' \<mapsto> validator1, ''V2'' \<mapsto> validator2],
             websites = [website1], ticks = [], payouts = Map.empty\<rparr>"

definition store_credit :: "int \<Rightarrow> store" where
  "store_credit b = store0\<lparr>validators :=
      [''V1'' \<mapsto> validator1\<lparr>PendingPayouts := b\<rparr>, ''V2'' \<mapsto> validator2]\<rparr>"

definition env_ok :: "string \<Rightarrow> tx_env" where
  "env_ok u = \<lparr>new_uuid = u, now = 0, create_fault = False, update_fault = False,
              commit_fault = False\<rparr>"

definition reply_from :: "string \<Rightarrow> string \<Rightarrow> IncomingMessage" where
  "reply_from cid vid =
     \<lparr>m_Type = ''validate'',
      m_Data = ValidateJSON \<lparr>vi_CallbackID = cid, vi_Status = ''Good'', vi_Latency = 120,
                vi_ValidatorID = vid, vi_WebsiteID = ''T1'', vi_SignedMessage = ''sig''\<rparr>\<rparr>"

definition connection1 :: ValidatorConnection where
  "connection1 = \<lparr>vc_ValidatorID = ''V1'', vc_PublicKey = ''pk1'', vc_Conn = 1\<rparr>"

definition connection2 :: ValidatorConnection where
  "connection2 = \<lparr>vc_ValidatorID = ''V2'', vc_PublicKey = ''pk2'', vc_Conn = 2\<rparr>"

definition hub0 :: Hub where
  "hub0 = \<lparr>h_db = store0, h_validators = [(''V1'', connection1), (''V2'', connection2)],
           h_callbacks = Map.empty, h_log = []\<rparr>"

definition hub1 :: Hub where
  "hub1 = hub0\<lparr>h_callbacks := [''c1'' \<mapsto> createValidateCallback ''T1'' ''pk1'']\<rparr>"

definition hub_idle :: Hub where
  "hub_idle = hub0\<lparr>h_validators := []\<rparr>"

definition uuid_seq :: "nat \<Rightarrow> string" where
  "uuid_seq k = replicate (Suc k) CHR ''c''"

definition payout_ok :: payout_env where
  "payout_ok = \<lparr>select_fault = False, marshal_fault = False, publish_fault = False,
                reset_fault = False, rp_commit_fault = False\<rparr>"

definition request1 :: PayoutRequest where
  "request1 = \<lparr>r_ValidatorID = ''V1'', r_Amount = 100, r_PublicKey = ''pk1''\<rparr>"

definition solana_down :: solana_env where
  "solana_down = \<lparr>recipient_error = (\<lambda>k. None), blockhash_error = None,
                  build_error = None, sign_error = None,
                  send_result = Inl ''connection refused''\<rparr>"

definition solana_up :: solana_env where
  "solana_up = \<lparr>recipient_error = (\<lambda>k. None), blockhash_error = None,
                build_error = None, sign_error = None, send_result = Inr ''SIG1''\<rparr>"

definition worker_ok :: "solana_env \<Rightarrow> poll list \<Rightarrow> worker_env" where
  "worker_ok sol ps = \<lparr>record_uuid = ''P1'', clock = (\<lambda>k. int k), solana = sol, polls = ps,
                       insert_fault = False, mark_fault = False, refund_fault = False\<rparr>"

definition get_t1 :: "http_Client \<Rightarrow> string \<Rightarrow> get_result" where
  "get_t1 client url =
     (if url = ''https://t1.example'' then GetOk 200 else GetErr None ''no such host'')"

definition probe1 :: ValidateData where
  "probe1 = \<lparr>d_URL = ''https://t1.example'', d_CallbackID = ''c1'', d_WebsiteID = ''T1''\<rparr>"

section \<open>The reply handler: results and credit\<close>

lemma createValidateCallback_commit:
  assumes "unmarshal_validate (m_Data msg) = Some validate"
    and "\<not> create_fault env" and "new_uuid env \<notin> set (map t_ID (ticks s))"
    and "w \<in> set (map w_ID (websites s))"
    and "validators s (vi_ValidatorID validate) = Some v"
    and "\<not> update_fault env" and "\<not> commit_fault env"
  shows "createValidateCallback w pk env msg s =
     s\<lparr>ticks := ticks s @ [\<lparr>t_ID = new_uuid env, t_WebsiteID = w,
                       t_ValidatorID = vi_ValidatorID validate,
                       t_Status = vi_Status validate,
                       t_Latency = vi_Latency validate,
                       t_CreatedAt = now env\<rparr>],
       validators := (validators s)(vi_ValidatorID validate \<mapsto>
           v\<lparr>PendingPayouts := PendingPayouts v + COST_PER_VALIDATION\<rparr>)\<rparr>"
  using assms
  by (simp add: createValidateCallback_def create_tick_def add_pending_def Let_def)

lemma createValidateCallback_cases:
  "createValidateCallback w pk env msg s = s \<or>
   (\<exists>validate v. unmarshal_validate (m_Data msg) = Some validate \<and>
      validators s (vi_ValidatorID validate) = Some v \<and>
      createValidateCallback w pk env msg s =
        s\<lparr>ticks := ticks s @ [\<lparr>t_ID = new_uuid env, t_WebsiteID = w,
                       t_ValidatorID = vi_ValidatorID validate,
                       t_Status = vi_Status validate,
                       t_Latency = vi_Latency validate,
                       t_CreatedAt = now env\<rparr>],
          validators := (validators s)(vi_ValidatorID validate \<mapsto>
             v\<lparr>PendingPayouts := PendingPayouts v + COST_PER_VALIDATION\<rparr>)\<rparr>)"
  by (auto simp add: createValidateCallback_def create_tick_def add_pending_def Let_def
      split: option.splits)

lemma callback_balance:
  "pending (createValidateCallback w pk env msg s) vid =
     pending s vid + COST_PER_VALIDATION *
       (int (results_for (createValidateCallback w pk env msg s) vid) - int (results_for s vid))"
  using createValidateCallback_cases [of w pk env msg s]
  by (auto simp add: pending_def results_for_def)

lemma handle_replies_balance:
  "pending (handle_replies es s) vid =
     pending s vid + COST_PER_VALIDATION *
       (int (results_for (handle_replies es s) vid) - int (results_for s vid))"
proof (induction es arbitrary: s)
  case Nil
  show ?case by simp
next
  case (Cons e es)
  obtain w pk env msg where e: "e = (w, pk, env, msg)" by (cases e) auto
  show ?case
    unfolding e handle_replies.simps
    by (simp only: Cons.IH [of "createValidateCallback w pk env msg s"]
          callback_balance [of w pk env msg s vid]) (simp add: algebra_simps)
qed

lemma callback_recorded:
  "pending (createValidateCallback w pk env msg s) vid =
     pending s vid +
       (if recorded_for vid s (createValidateCallback w pk env msg s)
        then COST_PER_VALIDATION else 0)"
  using createValidateCallback_cases [of w pk env msg s]
  by (auto simp add: pending_def recorded_for_def)

lemma handle_replies_recorded:
  "pending (handle_replies es s) vid =
     pending s vid + int (count_recorded vid es s) * COST_PER_VALIDATION"
proof (induction es arbitrary: s)
  case Nil
  show ?case by simp
next
  case (Cons e es)
  obtain w pk env msg where e: "e = (w, pk, env, msg)" by (cases e) auto
  show ?case
    unfolding e handle_replies.simps count_recorded.simps Let_def
    by (simp only: Cons.IH [of "createValidateCallback w pk env msg s"]
          callback_recorded [of w pk env msg s vid]) (simp add: algebra_simps)
qed

text \<open>
  Claim C3. One run of a reply handler either leaves the store as it was, or appends
  exactly one tick and adds the reward of 100 to the balance of the validator that the
  tick names, both in the one transaction it commits. Hence over any sequence of handled
  replies, and for every validator, the balance has grown by 100 for each tick recorded
  for that validator and by nothing else: no tick without its credit, no such credit
  without its tick.
\<close>

theorem result_and_credit_atomic:
  "(createValidateCallback w pk env msg s = s \<or>
    (\<exists>validate v. unmarshal_validate (m_Data msg) = Some validate \<and>
       validators s (vi_ValidatorID validate) = Some v \<and>
       createValidateCallback w pk env msg s =
         s\<lparr>ticks := ticks s @ [\<lparr>t_ID = new_uuid env, t_WebsiteID = w,
                       t_ValidatorID = vi_ValidatorID validate,
                       t_Status = vi_Status validate,
                       t_Latency = vi_Latency validate,
                       t_CreatedAt = now env\<rparr>],
           validators := (validators s)(vi_ValidatorID validate \<mapsto>
              v\<lparr>PendingPayouts := PendingPayouts v + 100\<rparr>)\<rparr>)) \<and>
   (\<forall>vid. pending (handle_replies es s) vid =
      pending s vid +
        100 * (int (results_for (handle_replies es s) vid) - int (results_for s vid)))"
  using createValidateCallback_cases [of w pk env msg s] handle_replies_balance [of es s]
  by (simp add: COST_PER_VALIDATION_def)

text \<open>
  Four replies for validator \<open>V1\<close>: the second repeats the tick id of the first and the
  third names a website that does not exist, so both are rolled back. Two ticks are
  recorded and the balance is 200.
\<close>

theorem result_and_credit_atomic_witness:
  "pending (handle_replies [(''T1'', ''pk1'', env_ok ''a'', reply_from ''c1'' ''V1''),
                            (''T1'', ''pk1'', env_ok ''a'', reply_from ''c2'' ''V1''),
                            (''T9'', ''pk1'', env_ok ''b'', reply_from ''c3'' ''V1''),
                            (''T1'', ''pk1'', env_ok ''c'', reply_from ''c4'' ''V1'')]
              store0) ''V1'' = 200 \<and>
   results_for (handle_replies [(''T1'', ''pk1'', env_ok ''a'', reply_from ''c1'' ''V1''),
                            (''T1'', ''pk1'', env_ok ''a'', reply_from ''c2'' ''V1''),
                            (''T9'', ''pk1'', env_ok ''b'', reply_from ''c3'' ''V1''),
                            (''T1'', ''pk1'', env_ok ''c'', reply_from ''c4'' ''V1'')]
              store0) ''V1'' = 2"
proof -
  let ?es = "[(''T1'', ''pk1'', env_ok ''a'', reply_from ''c1'' ''V1''),
              (''T1'', ''pk1'', env_ok ''a'', reply_from ''c2'' ''V1''),
              (''T9'', ''pk1'', env_ok ''b'', reply_from ''c3'' ''V1''),
              (''T1'', ''pk1'', env_ok ''c'', reply_from ''c4'' ''V1'')]"
  have r: "results_for (handle_replies ?es store0) ''V1'' = 2"
    by (simp add: results_for_def createValidateCallback_def create_tick_def add_pending_def
        store0_def env_ok_def reply_from_def website1_def validator1_def validator2_def
        COST_PER_VALIDATION_def)
  have z: "pending store0 ''V1'' = 0" "results_for store0 ''V1'' = 0"
    by (simp_all add: pending_def results_for_def store0_def validator1_def)
  from result_and_credit_atomic
    [of "''T1''" "''pk1''" "env_ok ''a''" "reply_from ''c1'' ''V1''" store0 ?es]
  have "pending (handle_replies ?es store0) ''V1'' =
      pending store0 ''V1'' + 100 * (int (results_for (handle_replies ?es store0) ''V1'') -
        int (results_for store0 ''V1''))"
    by blast
  with r z show ?thesis by simp
qed

text \<open>
  Claim C7. For a validator whose pending credit is 0, after any sequence of handled
  replies (and no settlement), the pending credit is 100 times the number of runs that
  recorded a Result for that validator.
\<close>

theorem credit_is_results_times_reward:
  "pending s vid = 0 \<Longrightarrow>
     pending (handle_replies es s) vid = int (count_recorded vid es s) * 100"
  using handle_replies_recorded [of es s vid] by (simp add: COST_PER_VALIDATION_def)

text \<open>
  Three results recorded for \<open>V1\<close> and one for \<open>V2\<close> in between: \<open>V1\<close> holds 300.
\<close>

theorem credit_is_results_times_reward_witness:
  "pending store0 ''V1'' = 0 \<and>
   count_recorded ''V1'' [(''T1'', ''pk1'', env_ok ''a'', reply_from ''c1'' ''V1''),
                          (''T1'', ''pk2'', env_ok ''b'', reply_from ''c2'' ''V2''),
                          (''T1'', ''pk1'', env_ok ''c'', reply_from ''c3'' ''V1''),
                          (''T1'', ''pk1'', env_ok ''d'', reply_from ''c4'' ''V1'')] store0 = 3 \<and>
   pending (handle_replies [(''T1'', ''pk1'', env_ok ''a'', reply_from ''c1'' ''V1''),
                          (''T1'', ''pk2'', env_ok ''b'', reply_from ''c2'' ''V2''),
                          (''T1'', ''pk1'', env_ok ''c'', reply_from ''c3'' ''V1''),
                          (''T1'', ''pk1'', env_ok ''d'', reply_from ''c4'' ''V1'')]
              store0) ''V1'' = 300"
proof -
  let ?es = "[(''T1'', ''pk1'', env_ok ''a'', reply_from ''c1'' ''V1''),
              (''T1'', ''pk2'', env_ok ''b'', reply_from ''c2'' ''V2''),
              (''T1'', ''pk1'', env_ok ''c'', reply_from ''c3'' ''V1''),
              (''T1'', ''pk1'', env_ok ''d'', reply_from ''c4'' ''V1'')]"
  have z: "pending store0 ''V1'' = 0"
    by (simp add: pending_def store0_def validator1_def)
  have c: "count_recorded ''V1'' ?es store0 = 3"
    by (simp add: recorded_for_def createValidateCallback_def create_tick_def add_pending_def
        store0_def env_ok_def reply_from_def website1_def validator1_def validator2_def
        COST_PER_VALIDATION_def Let_def)
  from credit_is_results_times_reward [OF z, of ?es] c z show ?thesis by simp
qed

text \<open>
  Claim C10. Whenever a run of the handler changes the store, the tick it records names
  the \<open>validatorId\<close> of the reply's payload and that validator's balance grows by 100; the
  row of every other validator is as before, and the public key the handler was
  registered with plays no part in the result.
\<close>

theorem reply_payload_names_credited_validator:
  assumes "unmarshal_validate (m_Data msg) = Some validate"
    and "createValidateCallback w pk env msg s \<noteq> s"
  shows "(\<exists>t. ticks (createValidateCallback w pk env msg s) = ticks s @ [t] \<and>
            t_ValidatorID t = vi_ValidatorID validate) \<and>
         pending (createValidateCallback w pk env msg s) (vi_ValidatorID validate) =
           pending s (vi_ValidatorID validate) + 100 \<and>
         (\<forall>u. u \<noteq> vi_ValidatorID validate \<longrightarrow>
            validators (createValidateCallback w pk env msg s) u = validators s u) \<and>
         (\<forall>pk'. createValidateCallback w pk' env msg s = createValidateCallback w pk env msg s)"
proof -
  have indep:
    "\<forall>pk'. createValidateCallback w pk' env msg s = createValidateCallback w pk env msg s"
    by (simp add: createValidateCallback_def)
  from createValidateCallback_cases [of w pk env msg s] assms
  obtain v where v: "validators s (vi_ValidatorID validate) = Some v"
    and eq: "createValidateCallback w pk env msg s =
        s\<lparr>ticks := ticks s @ [\<lparr>t_ID = new_uuid env, t_WebsiteID = w,
                       t_ValidatorID = vi_ValidatorID validate,
                       t_Status = vi_Status validate,
                       t_Latency = vi_Latency validate,
                       t_CreatedAt = now env\<rparr>],
          validators := (validators s)(vi_ValidatorID validate \<mapsto>
             v\<lparr>PendingPayouts := PendingPayouts v + COST_PER_VALIDATION\<rparr>)\<rparr>"
    by auto
  show ?thesis
    using indep v by (simp add: eq pending_def COST_PER_VALIDATION_def)
qed

text \<open>
  A handler registered for the public key of \<open>V1\<close> receives a reply that names \<open>V2\<close>:
  the tick names \<open>V2\<close>, \<open>V2\<close> is credited, \<open>V1\<close> is not.
\<close>

theorem reply_payload_names_credited_validator_witness:
  "unmarshal_validate (m_Data (reply_from ''c1'' ''V2'')) =
     Some \<lparr>vi_CallbackID = ''c1'', vi_Status = ''Good'', vi_Latency = 120,
                vi_ValidatorID = ''V2'', vi_WebsiteID = ''T1'', vi_SignedMessage = ''sig''\<rparr> \<and>
   createValidateCallback ''T1'' ''pk1'' (env_ok ''a'') (reply_from ''c1'' ''V2'') store0
     \<noteq> store0 \<and>
   pending (createValidateCallback ''T1'' ''pk1'' (env_ok ''a'') (reply_from ''c1'' ''V2'')
              store0) ''V2'' = 100 \<and>
   pending (createValidateCallback ''T1'' ''pk1'' (env_ok ''a'') (reply_from ''c1'' ''V2'')
              store0) ''V1'' = 0 \<and>
   map t_ValidatorID (ticks (createValidateCallback ''T1'' ''pk1'' (env_ok ''a'')
              (reply_from ''c1'' ''V2'') store0)) = [''V2'']"
proof -
  let ?v = "\<lparr>vi_CallbackID = ''c1'', vi_Status = ''Good'', vi_Latency = 120,
                vi_ValidatorID = ''V2'', vi_WebsiteID = ''T1'', vi_SignedMessage = ''sig''\<rparr>"
  let ?s = "createValidateCallback ''T1'' ''pk1'' (env_ok ''a'') (reply_from ''c1'' ''V2'') store0"
  have u: "unmarshal_validate (m_Data (reply_from ''c1'' ''V2'')) = Some ?v"
    by (simp add: reply_from_def)
  have t: "ticks ?s \<noteq> ticks store0"
    by (simp add: createValidateCallback_def create_tick_def add_pending_def
        store0_def env_ok_def reply_from_def website1_def validator1_def validator2_def)
  then have n: "?s \<noteq> store0" by auto
  have p0: "pending store0 ''V2'' = 0" "pending store0 ''V1'' = 0"
    by (simp_all add: pending_def store0_def validator1_def validator2_def)
  from reply_payload_names_credited_validator [OF u n]
  have a: "\<exists>t. ticks ?s = ticks store0 @ [t] \<and> t_ValidatorID t = ''V2''"
    and b: "pending ?s ''V2'' = pending store0 ''V2'' + 100"
    and c: "validators ?s ''V1'' = validators store0 ''V1''"
    by auto
  from c have c': "pending ?s ''V1'' = pending store0 ''V1''" by (simp add: pending_def)
  from a have a': "map t_ValidatorID (ticks ?s) = [''V2'']" by (auto simp add: store0_def)
  from u n a' b c' p0 show ?thesis by simp
qed

section \<open>The callback table\<close>

text \<open>
  Claim C4. For a reply that decodes and whose correlation id has a registered handler,
  \<open>handleValidate\<close> runs that handler once on the reply (the store afterwards is the
  handler's result on the store before) and removes the id from the table, so that any
  later reply carrying the same id leaves the hub as it is. A reply whose id has no
  registered handler leaves the hub as it is.
\<close>

theorem reply_runs_handler_once:
  "(unmarshal_validate data = Some validate \<and>
    h_callbacks h (vi_CallbackID validate) = Some callback \<longrightarrow>
      handleValidate env data h =
        h\<lparr>h_db := callback env \<lparr>m_Type = ''validate'', m_Data = data\<rparr> (h_db h),
          h_callbacks := (h_callbacks h)(vi_CallbackID validate := None)\<rparr> \<and>
      h_callbacks (handleValidate env data h) (vi_CallbackID validate) = None \<and>
      (\<forall>env' data' validate'.
         unmarshal_validate data' = Some validate' \<and>
         vi_CallbackID validate' = vi_CallbackID validate \<longrightarrow>
           handleValidate env' data' (handleValidate env data h) = handleValidate env data h)) \<and>
   (unmarshal_validate data = Some validate \<and>
    h_callbacks h (vi_CallbackID validate) = None \<longrightarrow>
      handleValidate env data h = h)"
  by (simp add: handleValidate_def Let_def)

text \<open>
  The handler registered under \<open>c1\<close> credits \<open>V1\<close> once; the duplicate of the reply and a
  reply under the unknown id \<open>c7\<close> change nothing.
\<close>

theorem reply_runs_handler_once_witness:
  "pending (h_db (handleValidate (env_ok ''a'') (m_Data (reply_from ''c1'' ''V1'')) hub1))
     ''V1'' = 100 \<and>
   h_callbacks (handleValidate (env_ok ''a'') (m_Data (reply_from ''c1'' ''V1'')) hub1) ''c1''
     = None \<and>
   handleValidate (env_ok ''b'') (m_Data (reply_from ''c1'' ''V1''))
     (handleValidate (env_ok ''a'') (m_Data (reply_from ''c1'' ''V1'')) hub1) =
     handleValidate (env_ok ''a'') (m_Data (reply_from ''c1'' ''V1'')) hub1 \<and>
   handleValidate (env_ok ''a'') (m_Data (reply_from ''c7'' ''V1'')) hub1 = hub1"
proof -
  let ?d = "m_Data (reply_from ''c1'' ''V1'')"
  let ?v = "\<lparr>vi_CallbackID = ''c1'', vi_Status = ''Good'', vi_Latency = 120,
             vi_ValidatorID = ''V1'', vi_WebsiteID = ''T1'', vi_SignedMessage = ''sig''\<rparr>"
  let ?d7 = "m_Data (reply_from ''c7'' ''V1'')"
  let ?v7 = "\<lparr>vi_CallbackID = ''c7'', vi_Status = ''Good'', vi_Latency = 120,
             vi_ValidatorID = ''V1'', vi_WebsiteID = ''T1'', vi_SignedMessage = ''sig''\<rparr>"
  let ?cb = "createValidateCallback ''T1'' ''pk1''"
  have u: "unmarshal_validate ?d = Some ?v" by (simp add: reply_from_def)
  have u7: "unmarshal_validate ?d7 = Some ?v7" by (simp add: reply_from_def)
  have c: "h_callbacks hub1 (vi_CallbackID ?v) = Some ?cb"
    by (simp add: hub1_def hub0_def)
  have c7: "h_callbacks hub1 (vi_CallbackID ?v7) = None"
    by (simp add: hub1_def hub0_def)
  note t = reply_runs_handler_once [of ?d ?v hub1 ?cb "env_ok ''a''"]
  from t u c have a1: "handleValidate (env_ok ''a'') ?d hub1 =
        hub1\<lparr>h_db := ?cb (env_ok ''a'') \<lparr>m_Type = ''validate'', m_Data = ?d\<rparr> (h_db hub1),
          h_callbacks := (h_callbacks hub1)(vi_CallbackID ?v := None)\<rparr>"
    by blast
  from t u c
  have a2: "h_callbacks (handleValidate (env_ok ''a'') ?d hub1) (vi_CallbackID ?v) = None"
    by blast
  from t u c
  have a3: "handleValidate (env_ok ''b'') ?d (handleValidate (env_ok ''a'') ?d hub1) =
      handleValidate (env_ok ''a'') ?d hub1"
    by blast
  from reply_runs_handler_once [of ?d7 ?v7 hub1 ?cb "env_ok ''a''"] u7 c7
  have a4: "handleValidate (env_ok ''a'') ?d7 hub1 = hub1" by blast
  have p: "pending (h_db (handleValidate (env_ok ''a'') ?d hub1)) ''V1'' = 100"
    unfolding a1
    by (simp add: pending_def createValidateCallback_def create_tick_def add_pending_def
        hub1_def hub0_def store0_def env_ok_def reply_from_def website1_def validator1_def
        validator2_def COST_PER_VALIDATION_def)
  from p a2 a3 a4 show ?thesis by simp
qed

section \<open>The dispatch loop\<close>

lemma send_tasks_snd: "snd (send_tasks uuid w vs k h) = k + length vs"
  by (induction vs arbitrary: k h) simp_all

lemma send_tasks_frame:
  "h_db (fst (send_tasks uuid w vs k h)) = h_db h \<and>
   h_validators (fst (send_tasks uuid w vs k h)) = h_validators h"
  by (induction vs arbitrary: k h)
     (simp_all add: dispatch_def write_task_def register_callback_def)

lemma send_tasks_log:
  "h_log (fst (send_tasks uuid w vs k h)) =
     h_log h @ concat (map (\<lambda>(v, cid). [Registered cid, Written (vc_Conn v) (validate_task w cid)])
                        (zip vs (map uuid [k..<k + length vs])))"
proof (induction vs arbitrary: k h)
  case Nil
  show ?case by simp
next
  case (Cons v vs)
  have "[k..<k + length (v # vs)] = k # [Suc k..<Suc k + length vs]"
    by (simp add: upt_rec)
  then show ?case
    by (simp add: Cons.IH dispatch_def write_task_def register_callback_def)
qed

lemma send_tasks_other:
  "c \<notin> uuid ` {k..<k + length vs} \<Longrightarrow>
     h_callbacks (fst (send_tasks uuid w vs k h)) c = h_callbacks h c"
proof (induction vs arbitrary: k h)
  case Nil
  show ?case by simp
next
  case (Cons v vs)
  from Cons.prems have a: "c \<noteq> uuid k" and b: "c \<notin> uuid ` {Suc k..<Suc k + length vs}"
    by auto
  show ?case
    using a by (simp add: Cons.IH [OF b] dispatch_def write_task_def register_callback_def)
qed

lemma send_tasks_new:
  "inj_on uuid {k..<k + length vs} \<Longrightarrow> i < length vs \<Longrightarrow>
     h_callbacks (fst (send_tasks uuid w vs k h)) (uuid (k + i)) =
       Some (createValidateCallback (w_ID w) (vc_PublicKey (vs ! i)))"
proof (induction vs arbitrary: k h i)
  case Nil
  then show ?case by simp
next
  case (Cons v vs)
  have inj: "inj_on uuid {Suc k..<Suc k + length vs}"
    by (rule inj_on_subset [OF Cons.prems(1)]) auto
  show ?case
  proof (cases i)
    case 0
    have "uuid k \<notin> uuid ` {Suc k..<Suc k + length vs}"
    proof
      assume "uuid k \<in> uuid ` {Suc k..<Suc k + length vs}"
      then obtain j where j: "j \<in> {Suc k..<Suc k + length vs}" "uuid k = uuid j" by auto
      with Cons.prems(1) have "k = j" by (auto simp add: inj_on_def)
      with j show False by simp
    qed
    from send_tasks_other [OF this] show ?thesis
      using 0 by (simp add: dispatch_def write_task_def register_callback_def)
  next
    case (Suc j)
    with Cons.prems have "j < length vs" by simp
    from Cons.IH [OF inj this] show ?thesis using Suc by simp
  qed
qed

lemma monitor_websites_snd:
  "snd (monitor_websites uuid ws vs k h) = k + length ws * length vs"
proof (induction ws arbitrary: k h)
  case Nil
  show ?case by simp
next
  case (Cons w ws)
  obtain h' k' where s: "send_tasks uuid w vs k h = (h', k')" by (cases "send_tasks uuid w vs k h")
  with send_tasks_snd [of uuid w vs k h] have "k' = k + length vs" by simp
  with s show ?case by (simp add: Cons.IH)
qed

lemma monitor_websites_frame:
  "h_db (fst (monitor_websites uuid ws vs k h)) = h_db h \<and>
   h_validators (fst (monitor_websites uuid ws vs k h)) = h_validators h"
proof (induction ws arbitrary: k h)
  case Nil
  show ?case by simp
next
  case (Cons w ws)
  obtain h' k' where s: "send_tasks uuid w vs k h = (h', k')" by (cases "send_tasks uuid w vs k h")
  with send_tasks_frame [of uuid w vs k h] show ?case by (simp add: Cons.IH)
qed

lemma upt_split: "[k..<k + (n + m)] = [k..<k + n] @ [k + n..<k + n + m]"
  by (metis add.assoc le_add1 upt_add_eq_append)

lemma monitor_websites_log:
  "h_log (fst (monitor_websites uuid ws vs k h)) =
     h_log h @ concat (map (\<lambda>((w, v), cid). [Registered cid, Written (vc_Conn v) (validate_task w cid)])
                        (zip (List.product ws vs) (map uuid [k..<k + length ws * length vs])))"
proof (induction ws arbitrary: k h)
  case Nil
  show ?case by simp
next
  case (Cons w ws)
  obtain h' k' where s: "send_tasks uuid w vs k h = (h', k')" by (cases "send_tasks uuid w vs k h")
  with send_tasks_snd [of uuid w vs k h] have k': "k' = k + length vs" by simp
  from s send_tasks_log [of uuid w vs k h]
  have l: "h_log h' = h_log h @ concat (map (\<lambda>(v, cid). [Registered cid, Written (vc_Conn v) (validate_task w cid)])
                        (zip vs (map uuid [k..<k + length vs])))" by simp
  have z: "zip (map (Pair w) vs @ List.product ws vs)
             (map uuid [k..<k + length vs] @ map uuid [k + length vs..<k + length vs + length ws * length vs])
         = zip (map (Pair w) vs) (map uuid [k..<k + length vs]) @
           zip (List.product ws vs) (map uuid [k + length vs..<k + length vs + length ws * length vs])"
    by (rule zip_append) simp
  have m: "map (\<lambda>((w, v), cid). [Registered cid, Written (vc_Conn v) (validate_task w cid)])
             (zip (map (Pair w) vs) (map uuid [k..<k + length vs]))
         = map (\<lambda>(v, cid). [Registered cid, Written (vc_Conn v) (validate_task w cid)])
             (zip vs (map uuid [k..<k + length vs]))"
    by (auto simp add: zip_map1)
  show ?case
    using s by (simp add: Cons.IH k' l upt_split z m)
qed

lemma monitor_websites_other:
  "c \<notin> uuid ` {k..<k + length ws * length vs} \<Longrightarrow>
     h_callbacks (fst (monitor_websites uuid ws vs k h)) c = h_callbacks h c"
proof (induction ws arbitrary: k h)
  case Nil
  show ?case by simp
next
  case (Cons w ws)
  obtain h' k' where s: "send_tasks uuid w vs k h = (h', k')" by (cases "send_tasks uuid w vs k h")
  with send_tasks_snd [of uuid w vs k h] have k': "k' = k + length vs" by simp
  from Cons.prems have a: "c \<notin> uuid ` {k..<k + length vs}"
    and b: "c \<notin> uuid ` {k + length vs..<k + length vs + length ws * length vs}"
    by (auto simp add: image_iff)
  from send_tasks_other [OF a, of w h] s have "h_callbacks h' c = h_callbacks h c" by simp
  with Cons.IH [OF b, of h'] s k' show ?case by simp
qed

lemma monitor_websites_new:
  "inj_on uuid {k..<k + length ws * length vs} \<Longrightarrow> i < length ws * length vs \<Longrightarrow>
     h_callbacks (fst (monitor_websites uuid ws vs k h)) (uuid (k + i)) =
       Some (createValidateCallback (w_ID (fst (List.product ws vs ! i)))
              (vc_PublicKey (snd (List.product ws vs ! i))))"
proof (induction ws arbitrary: k h i)
  case Nil
  then show ?case by simp
next
  case (Cons w ws)
  obtain h' k' where s: "send_tasks uuid w vs k h = (h', k')" by (cases "send_tasks uuid w vs k h")
  with send_tasks_snd [of uuid w vs k h] have k': "k' = k + length vs" by simp
  let ?n = "length vs" and ?m = "length ws * length vs"
  from Cons.prems(1) have inj: "inj_on uuid {k..<k + (?n + ?m)}" by simp
  have inj1: "inj_on uuid {k..<k + ?n}" by (rule inj_on_subset [OF inj]) auto
  have inj2: "inj_on uuid {k + ?n..<k + ?n + ?m}" by (rule inj_on_subset [OF inj]) auto
  show ?case
  proof (cases "i < ?n")
    case True
    have "uuid (k + i) \<notin> uuid ` {k + ?n..<k + ?n + ?m}"
    proof
      assume "uuid (k + i) \<in> uuid ` {k + ?n..<k + ?n + ?m}"
      then obtain j where j: "j \<in> {k + ?n..<k + ?n + ?m}" "uuid (k + i) = uuid j" by auto
      with inj True have "k + i = j" by (auto simp add: inj_on_def)
      with j True show False by simp
    qed
    from monitor_websites_other [OF this, of h'] send_tasks_new [OF inj1 True, of w h] s
    show ?thesis using True k' by (simp add: nth_append)
  next
    case False
    then obtain j where j: "i = ?n + j" using le_Suc_ex not_less by blast
    with Cons.prems(2) have jm: "j < ?m" by simp
    from Cons.IH [OF inj2 jm, of h'] s k' j show ?thesis
      by (simp add: nth_append add.assoc)
  qed
qed

text \<open>
  Claim C9. In one cycle whose query for the active websites succeeds, with \<open>ws\<close> the
  active websites and \<open>vs\<close> the connected validators: the loop's effects are, for every
  pair of \<open>List.product ws vs\<close> in turn and with the next uuid, one registration under
  that uuid followed by one write of the task \<open>{url, callbackId, websiteId}\<close> on that
  validator's connection, and nothing else; the store and the registry are untouched;
  the callback table changes only at the generated ids; when the generated ids are
  pairwise distinct, each holds the handler of its own pair; and when \<open>ws\<close> or \<open>vs\<close> is
  empty the hub is unchanged.
\<close>

theorem dispatch_cycle_fan_out:
  "(let ws = active_websites (h_db h); vs = connected_validators h;
        n = length ws * length vs; ps = List.product ws vs;
        h' = startMonitoring_cycle False uuid h
    in h_log h' = h_log h @ concat (map (\<lambda>((w, v), cid).
              [Registered cid,
               Written (vc_Conn v) \<lparr>o_Type = ''validate'',
                  o_Data = \<lparr>task_url = URL w, task_callbackId = cid, task_websiteId = w_ID w\<rparr>\<rparr>])
            (zip ps (map uuid [0..<n]))) \<and>
       h_db h' = h_db h \<and> h_validators h' = h_validators h \<and>
       (\<forall>c. c \<notin> uuid ` {0..<n} \<longrightarrow> h_callbacks h' c = h_callbacks h c) \<and>
       (inj_on uuid {0..<n} \<longrightarrow>
          (\<forall>i<n. h_callbacks h' (uuid i) =
             Some (createValidateCallback (w_ID (fst (ps ! i))) (vc_PublicKey (snd (ps ! i)))))) \<and>
       (ws = [] \<or> vs = [] \<longrightarrow> h' = h))"
proof -
  let ?ws = "active_websites (h_db h)" and ?vs = "connected_validators h"
  show ?thesis
  proof (cases "?ws = [] \<or> ?vs = []")
    case True
    then show ?thesis by (auto simp add: startMonitoring_cycle_def Let_def)
  next
    case False
    then have eq: "startMonitoring_cycle False uuid h = fst (monitor_websites uuid ?ws ?vs 0 h)"
      by (simp add: startMonitoring_cycle_def Let_def)
    have v: "(\<lambda>((w, v), cid). [Registered cid, Written (vc_Conn v) (validate_task w cid)]) =
       (\<lambda>((w, v), cid). [Registered cid,
               Written (vc_Conn v) \<lparr>o_Type = ''validate'',
                  o_Data = \<lparr>task_url = URL w, task_callbackId = cid, task_websiteId = w_ID w\<rparr>\<rparr>])"
      by (simp add: validate_task_def)
    show ?thesis
      unfolding Let_def eq
      using monitor_websites_log [of uuid ?ws ?vs 0 h] monitor_websites_frame [of uuid ?ws ?vs 0 h]
        monitor_websites_other [of _ uuid 0 ?ws ?vs h]
        monitor_websites_new [of uuid 0 ?ws ?vs _ h] False
      by (simp add: v)
  qed
qed

text \<open>
  One active website and two connected validators: two registrations, each followed by
  its write; with no validator connected the cycle does nothing.
\<close>

theorem dispatch_cycle_fan_out_witness:
  "inj_on uuid_seq {0..<2} \<and>
   h_log (startMonitoring_cycle False uuid_seq hub0) =
     [Registered ''c'',
      Written 1 \<lparr>o_Type = ''validate'', o_Data = \<lparr>task_url = ''https://t1.example'',
                   task_callbackId = ''c'', task_websiteId = ''T1''\<rparr>\<rparr>,
      Registered ''cc'',
      Written 2 \<lparr>o_Type = ''validate'', o_Data = \<lparr>task_url = ''https://t1.example'',
                   task_callbackId = ''cc'', task_websiteId = ''T1''\<rparr>\<rparr>] \<and>
   h_callbacks (startMonitoring_cycle False uuid_seq hub0) ''c'' =
     Some (createValidateCallback ''T1'' ''pk1'') \<and>
   h_callbacks (startMonitoring_cycle False uuid_seq hub0) ''cc'' =
     Some (createValidateCallback ''T1'' ''pk2'') \<and>
   h_callbacks (startMonitoring_cycle False uuid_seq hub0) ''ccc'' = None \<and>
   startMonitoring_cycle False uuid_seq hub_idle = hub_idle"
proof -
  have ws: "active_websites (h_db hub0) = [website1]"
    by (simp add: active_websites_def hub0_def store0_def website1_def)
  have vs: "connected_validators hub0 = [connection1, connection2]"
    by (simp add: connected_validators_def hub0_def)
  have up: "[0..<2] = [0, Suc 0]" by (simp add: upt_rec)
  have two: "{0..<2::nat} = {0, Suc 0}" by auto
  have inj: "inj_on uuid_seq {0..<2}"
    by (simp add: two uuid_seq_def)
  have fresh: "''ccc'' \<notin> uuid_seq ` {0..<2}"
    by (simp add: two uuid_seq_def)
  have i2: "\<And>P. (\<forall>i<2. P i) = (P 0 \<and> P (Suc 0))"
    by (auto simp add: less_Suc_eq numeral_2_eq_2)
  have n: "length [website1] * length [connection1, connection2] = 2" by simp
  note t = dispatch_cycle_fan_out [of hub0 uuid_seq, unfolded Let_def ws vs n]
  from t have l: "h_log (startMonitoring_cycle False uuid_seq hub0) =
     h_log hub0 @ concat (map (\<lambda>((w, v), cid).
              [Registered cid,
               Written (vc_Conn v) \<lparr>o_Type = ''validate'',
                  o_Data = \<lparr>task_url = URL w, task_callbackId = cid, task_websiteId = w_ID w\<rparr>\<rparr>])
            (zip (List.product [website1] [connection1, connection2]) (map uuid_seq [0..<2])))"
    by blast
  from t fresh have o: "h_callbacks (startMonitoring_cycle False uuid_seq hub0) ''ccc'' =
      h_callbacks hub0 ''ccc''"
    by blast
  from t inj have c: "\<forall>i<2. h_callbacks (startMonitoring_cycle False uuid_seq hub0) (uuid_seq i) =
       Some (createValidateCallback (w_ID (fst (List.product [website1] [connection1, connection2] ! i)))
              (vc_PublicKey (snd (List.product [website1] [connection1, connection2] ! i))))"
    by blast
  from l o c
  have "h_log (startMonitoring_cycle False uuid_seq hub0) =
     [Registered ''c'',
      Written 1 \<lparr>o_Type = ''validate'', o_Data = \<lparr>task_url = ''https://t1.example'',
                   task_callbackId = ''c'', task_websiteId = ''T1''\<rparr>\<rparr>,
      Registered ''cc'',
      Written 2 \<lparr>o_Type = ''validate'', o_Data = \<lparr>task_url = ''https://t1.example'',
                   task_callbackId = ''cc'', task_websiteId = ''T1''\<rparr>\<rparr>] \<and>
   h_callbacks (startMonitoring_cycle False uuid_seq hub0) ''c'' =
     Some (createValidateCallback ''T1'' ''pk1'') \<and>
   h_callbacks (startMonitoring_cycle False uuid_seq hub0) ''cc'' =
     Some (createValidateCallback ''T1'' ''pk2'') \<and>
   h_callbacks (startMonitoring_cycle False uuid_seq hub0) ''ccc'' = None"
    by (simp add: up i2 uuid_seq_def hub0_def website1_def connection1_def connection2_def)
  moreover
  have "active_websites (h_db hub_idle) = [website1]" "connected_validators hub_idle = []"
    by (simp_all add: active_websites_def connected_validators_def hub_idle_def hub0_def
        store0_def website1_def)
  with dispatch_cycle_fan_out [of hub_idle uuid_seq]
  have "startMonitoring_cycle False uuid_seq hub_idle = hub_idle"
    by (simp add: Let_def)
  ultimately show ?thesis using inj by simp
qed

section \<open>The settlement request\<close>

text \<open>
  Claim C6. For a validator whose row is found and whose pending credit is 0, the
  settlement request answers \<open>cleared\<close> with amount 0 and leaves the store and the queue
  as they were.
\<close>

theorem zero_credit_settlement_is_noop:
  "\<not> select_fault env \<Longrightarrow> validators s validatorID = Some v \<Longrightarrow> PendingPayouts v = 0 \<Longrightarrow>
     RequestPayout env validatorID (s, queue) =
       (SuccessResponse 200 ''cleared'' ''all payment cleared'' 0, s, queue)"
  by (simp add: RequestPayout_def)

theorem zero_credit_settlement_is_noop_witness:
  "\<not> select_fault payout_ok \<and> validators (store_credit 0) ''V1'' = Some validator1 \<and>
   PendingPayouts validator1 = 0 \<and>
   RequestPayout payout_ok ''V1'' (store_credit 0, []) =
     (SuccessResponse 200 ''cleared'' ''all payment cleared'' 0, store_credit 0, [])"
proof -
  have a: "\<not> select_fault payout_ok" by (simp add: payout_ok_def)
  have b: "validators (store_credit 0) ''V1'' = Some validator1"
    by (simp add: store_credit_def validator1_def)
  have c: "PendingPayouts validator1 = 0" by (simp add: validator1_def)
  from zero_credit_settlement_is_noop [OF a b c, of "[]"] a b c show ?thesis by simp
qed

text \<open>
  With a positive balance \<open>B\<close> and no failure, the request zeroes the balance and appends
  exactly one message with amount \<open>B\<close> and the validator's public key. When the
  publication fails nothing changes, and no run appends more than that one message.
\<close>

lemma RequestPayout_queued:
  assumes "\<not> select_fault env" "\<not> marshal_fault env" "\<not> publish_fault env"
    "\<not> reset_fault env" "\<not> rp_commit_fault env"
    and "validators s validatorID = Some v" and "0 < PendingPayouts v"
  shows "RequestPayout env validatorID (s, queue) =
     (SuccessResponse 200 ''queued'' ''Payout request queued for processing'' (PendingPayouts v),
      s\<lparr>validators := (validators s)(validatorID \<mapsto> v\<lparr>PendingPayouts := 0\<rparr>)\<rparr>,
      queue @ [PayoutJSON \<lparr>r_ValidatorID = validatorID, r_Amount = PendingPayouts v,
                 r_PublicKey = PublicKey v\<rparr>])"
  using assms by (simp add: RequestPayout_def Let_def)

lemma RequestPayout_not_published:
  assumes "publish_fault env"
  shows "snd (RequestPayout env validatorID (s, queue)) = (s, queue)"
  using assms by (simp add: RequestPayout_def Let_def split: option.splits)

lemma RequestPayout_at_most_one:
  "snd (snd (RequestPayout env validatorID (s, queue))) = queue \<or>
   (\<exists>v. validators s validatorID = Some v \<and> 0 < PendingPayouts v \<and>
      snd (snd (RequestPayout env validatorID (s, queue))) =
        queue @ [PayoutJSON \<lparr>r_ValidatorID = validatorID, r_Amount = PendingPayouts v,
                   r_PublicKey = PublicKey v\<rparr>])"
  by (auto simp add: RequestPayout_def Let_def split: option.splits)

lemma RequestPayout_store_cases:
  "fst (snd (RequestPayout env validatorID (s, queue))) = s \<or>
   (\<exists>v. validators s validatorID = Some v \<and>
      fst (snd (RequestPayout env validatorID (s, queue))) =
        s\<lparr>validators := (validators s)(validatorID \<mapsto> v\<lparr>PendingPayouts := 0\<rparr>)\<rparr> \<and>
      snd (snd (RequestPayout env validatorID (s, queue))) =
        queue @ [PayoutJSON \<lparr>r_ValidatorID = validatorID, r_Amount = PendingPayouts v,
                   r_PublicKey = PublicKey v\<rparr>])"
  by (auto simp add: RequestPayout_def Let_def split: option.splits)

text \<open>
  Claim C1. The claim asks that zeroing the balance and enqueuing the message be one
  atomic unit: no run may leave a message on the queue while the balance is not zeroed.
  \<open>RequestPayout\<close> publishes the message before it updates the balance and commits, and
  the queue is not part of the database transaction. Whenever the publication succeeds
  and the UPDATE or the COMMIT then fails, the store is as it was before the request, so
  the balance is not zeroed, and the message for the whole balance is on the queue.
\<close>

theorem settlement_message_without_zeroing:
  assumes "\<not> select_fault env" and "\<not> marshal_fault env" and "\<not> publish_fault env"
    and "reset_fault env \<or> rp_commit_fault env"
    and "validators s validatorID = Some v" and "0 < PendingPayouts v"
  shows "snd (RequestPayout env validatorID (s, queue)) =
     (s, queue @ [PayoutJSON \<lparr>r_ValidatorID = validatorID, r_Amount = PendingPayouts v,
                    r_PublicKey = PublicKey v\<rparr>])"
  using assms by (auto simp add: RequestPayout_def Let_def)

text \<open>
  Validator \<open>V1\<close> holds 100, the publication succeeds and the COMMIT fails: the handler
  answers 500, the balance is still 100, and the message for 100 lamports is on the queue.
\<close>

theorem settlement_message_without_zeroing_witness:
  "RequestPayout (payout_ok\<lparr>rp_commit_fault := True\<rparr>) ''V1'' (store_credit 100, []) =
     (ErrorResponse 500 ''Failed to commit transaction'', store_credit 100,
      [PayoutJSON \<lparr>r_ValidatorID = ''V1'', r_Amount = 100, r_PublicKey = ''pk1''\<rparr>])"
proof -
  let ?env = "payout_ok\<lparr>rp_commit_fault := True\<rparr>"
  have e: "\<not> select_fault ?env" "\<not> marshal_fault ?env" "\<not> publish_fault ?env"
    "reset_fault ?env \<or> rp_commit_fault ?env"
    by (simp_all add: payout_ok_def)
  have v: "validators (store_credit 100) ''V1'' = Some (validator1\<lparr>PendingPayouts := 100\<rparr>)"
    by (simp add: store_credit_def)
  have p: "0 < PendingPayouts (validator1\<lparr>PendingPayouts := 100\<rparr>)" by simp
  have r: "fst (RequestPayout ?env ''V1'' (store_credit 100, [])) =
      ErrorResponse 500 ''Failed to commit transaction''"
    by (simp add: RequestPayout_def Let_def payout_ok_def store_credit_def)
  from settlement_message_without_zeroing [OF e v p, of "[]"]
  have "snd (RequestPayout ?env ''V1'' (store_credit 100, [])) =
     (store_credit 100,
      [PayoutJSON \<lparr>r_ValidatorID = ''V1'', r_Amount = 100, r_PublicKey = ''pk1''\<rparr>])"
    by (simp add: validator1_def)
  with r show ?thesis by (simp add: prod_eq_iff)
qed

section \<open>The settlement worker\<close>

text \<open>
  When the submission fails and both UPDATEs are applied, the record is \<open>failed\<close> with
  the error text, the balance has grown by the requested amount, and the message is
  rejected without requeue.
\<close>

lemma processPayoutRequest_submission_fails:
  assumes "unmarshal_payout body = Some req"
    and "\<not> insert_fault env" and "payouts s (record_uuid env) = None"
    and "validators s (r_ValidatorID req) = Some v"
    and "executeSolanaTransfer (solana env) (r_PublicKey req) (r_Amount req) = Inl err"
    and "\<not> mark_fault env" and "\<not> refund_fault env"
  shows "processPayoutRequest env body s =
     (s\<lparr>payouts := (payouts s)(record_uuid env \<mapsto>
           \<lparr>p_ValidatorID = r_ValidatorID req, p_Amount = r_Amount req,
            p_Status = ''failed'', p_TxSignature = [], p_ErrorMessage = err,
            p_CreatedAt = clock env 0, p_UpdatedAt = clock env 2\<rparr>),
        validators := (validators s)(r_ValidatorID req \<mapsto>
           v\<lparr>PendingPayouts := PendingPayouts v + r_Amount req\<rparr>)\<rparr>,
      Nack False)"
  using assms
  by (simp add: processPayoutRequest_def Let_def create_payout_def update_payout_def
      add_pending_def dropped_result_def)

text \<open>
  A settlement request followed by the worker's run on its message: when nothing fails
  but the submission, the balance is again what it was before the request.
\<close>

lemma settlement_compensated:
  assumes "\<not> select_fault env" "\<not> marshal_fault env" "\<not> publish_fault env"
    "\<not> reset_fault env" "\<not> rp_commit_fault env"
    and "validators s validatorID = Some v" and "0 < PendingPayouts v"
    and "RequestPayout env validatorID (s, []) = (r, s1, queue)"
    and "\<not> insert_fault wenv" and "payouts s (record_uuid wenv) = None"
    and "executeSolanaTransfer (solana wenv) (PublicKey v) (PendingPayouts v) = Inl err"
    and "\<not> mark_fault wenv" and "\<not> refund_fault wenv"
  shows "\<exists>body. queue = [body] \<and> pending s1 validatorID = 0 \<and>
           pending (fst (processPayoutRequest wenv body s1)) validatorID = PendingPayouts v \<and>
           snd (processPayoutRequest wenv body s1) = Nack False"
proof -
  let ?req = "\<lparr>r_ValidatorID = validatorID, r_Amount = PendingPayouts v,
               r_PublicKey = PublicKey v\<rparr>"
  from RequestPayout_queued [OF assms(1-7), of "[]"] assms(8)
  have s1: "s1 = s\<lparr>validators := (validators s)(validatorID \<mapsto> v\<lparr>PendingPayouts := 0\<rparr>)\<rparr>"
    and q: "queue = [PayoutJSON ?req]"
    by simp_all
  have a: "unmarshal_payout (PayoutJSON ?req) = Some ?req" by simp
  have b: "payouts s1 (record_uuid wenv) = None" using assms(10) by (simp add: s1)
  have c: "validators s1 (r_ValidatorID ?req) = Some (v\<lparr>PendingPayouts := 0\<rparr>)"
    by (simp add: s1)
  have d: "executeSolanaTransfer (solana wenv) (r_PublicKey ?req) (r_Amount ?req) = Inl err"
    using assms(11) by simp
  from processPayoutRequest_submission_fails [OF a assms(9) b c d assms(12) assms(13)]
  show ?thesis
    by (simp add: q s1 pending_def)
qed

text \<open>
  Claim C2. The claim asks that, when the submission fails, marking the record \<open>failed\<close>
  and re-crediting the balance be atomic, so that the balance is what it was before the
  settlement request. The worker issues two separate UPDATEs outside any transaction
  and drops the result of both. Whenever the submission fails, the first UPDATE is
  applied and the UPDATE of the balance fails, the settlement record is \<open>failed\<close>, the
  message is rejected without requeue, and no balance has changed.
\<close>

theorem refund_lost_when_update_fails:
  assumes "unmarshal_payout body = Some req"
    and "\<not> insert_fault env" and "payouts s (record_uuid env) = None"
    and "validators s (r_ValidatorID req) = Some v"
    and "executeSolanaTransfer (solana env) (r_PublicKey req) (r_Amount req) = Inl err"
    and "\<not> mark_fault env" and "refund_fault env"
  shows "processPayoutRequest env body s =
     (s\<lparr>payouts := (payouts s)(record_uuid env \<mapsto>
           \<lparr>p_ValidatorID = r_ValidatorID req, p_Amount = r_Amount req,
            p_Status = ''failed'', p_TxSignature = [], p_ErrorMessage = err,
            p_CreatedAt = clock env 0, p_UpdatedAt = clock env 2\<rparr>)\<rparr>,
      Nack False)"
  using assms
  by (simp add: processPayoutRequest_def Let_def create_payout_def update_payout_def
      add_pending_def dropped_result_def)

text \<open>
  The request for the 100 lamports of \<open>V1\<close>, whose balance the request has zeroed: the
  submission fails, the UPDATE of the record is applied, the UPDATE of the balance
  fails. The record is \<open>failed\<close>, the message is rejected, the balance stays 0.
\<close>

theorem refund_lost_when_update_fails_witness:
  "(case processPayoutRequest ((worker_ok solana_down [])\<lparr>refund_fault := True\<rparr>)
           (PayoutJSON request1) (store_credit 0) of
      (s', a) \<Rightarrow> (map_option p_Status (payouts s' ''P1''),
                  map_option p_ErrorMessage (payouts s' ''P1''), pending s' ''V1'', a)) =
     (Some ''failed'', Some ''failed to send transaction: connection refused'', 0, Nack False)"
proof -
  let ?env = "(worker_ok solana_down [])\<lparr>refund_fault := True\<rparr>"
  have a: "unmarshal_payout (PayoutJSON request1) = Some request1" by simp
  have b: "\<not> insert_fault ?env" "\<not> mark_fault ?env" "refund_fault ?env"
    by (simp_all add: worker_ok_def)
  have c: "payouts (store_credit 0) (record_uuid ?env) = None"
    by (simp add: store_credit_def store0_def worker_ok_def)
  have d: "validators (store_credit 0) (r_ValidatorID request1) =
      Some (validator1\<lparr>PendingPayouts := 0\<rparr>)"
    by (simp add: store_credit_def request1_def)
  have t: "executeSolanaTransfer (solana ?env) (r_PublicKey request1) (r_Amount request1) =
      Inl ''failed to send transaction: connection refused''"
    by (simp add: executeSolanaTransfer_def worker_ok_def solana_down_def)
  from refund_lost_when_update_fails [OF a b(1) c d t b(2) b(3)]
  show ?thesis
    by (simp add: pending_def store_credit_def worker_ok_def)
qed

text \<open>
  \<open>waitForConfirmation\<close> always returns. It reports the deadline when no poll before it
  showed a finalized status or an error of the transaction; and whenever it reports a
  failure after a submission, the worker (its UPDATE applied) marks the record \<open>failed\<close>
  with the signature kept, rejects the message without requeue and leaves every balance
  as it was.
\<close>

lemma waitForConfirmation_skips:
  "list_all undecided pre \<Longrightarrow> waitForConfirmation (pre @ rest) = waitForConfirmation rest"
  by (induction pre rule: waitForConfirmation.induct) (auto simp add: undecided_def)

lemma waitForConfirmation_timeout:
  "list_all undecided ps \<Longrightarrow>
     waitForConfirmation ps = (False, Some ''confirmation timeout'')"
  using waitForConfirmation_skips [of ps "[]"] by simp

lemma waitForConfirmation_failed:
  "list_all undecided pre \<Longrightarrow> level \<noteq> Finalized \<Longrightarrow>
     waitForConfirmation (pre @ SignatureStatus level (Some e) # rest) =
       (False, Some (''transaction failed: '' @ e))"
  by (simp add: waitForConfirmation_skips)

lemma waitForConfirmation_confirmed:
  "waitForConfirmation ps = (True, None) \<or> (\<exists>e. waitForConfirmation ps = (False, Some e))"
  by (induction ps rule: waitForConfirmation.induct) (auto split: option.splits)

lemma processPayoutRequest_not_confirmed:
  assumes "unmarshal_payout body = Some req"
    and "\<not> insert_fault env" and "payouts s (record_uuid env) = None"
    and "validators s (r_ValidatorID req) = Some v"
    and "executeSolanaTransfer (solana env) (r_PublicKey req) (r_Amount req) = Inr signature"
    and "waitForConfirmation (polls env) = (confirmed, err)" and "err \<noteq> None \<or> \<not> confirmed"
    and "\<not> mark_fault env"
  shows "processPayoutRequest env body s =
     (s\<lparr>payouts := (payouts s)(record_uuid env \<mapsto>
           \<lparr>p_ValidatorID = r_ValidatorID req, p_Amount = r_Amount req,
            p_Status = ''failed'', p_TxSignature = signature,
            p_ErrorMessage = ''Transaction confirmation timeout'',
            p_CreatedAt = clock env 0, p_UpdatedAt = clock env 2\<rparr>)\<rparr>,
      Nack False)"
  using assms
  by (auto simp add: processPayoutRequest_def Let_def create_payout_def update_payout_def
      dropped_result_def)

text \<open>
  Claim C5. The claim asks that a submitted transfer whose polling reports an on-chain
  failure be marked \<open>failed\<close> and rejected. \<open>waitForConfirmation\<close> returns success as soon
  as a status is finalized and only then looks at the status's \<open>Err\<close>. Whenever the first
  poll that decides shows a finalized status that carries an error, the polling reports
  a confirmation, the record is \<open>completed\<close> with the signature, and the message is
  acknowledged.
\<close>

theorem finalized_failure_marked_completed:
  assumes "unmarshal_payout body = Some req"
    and "\<not> insert_fault env" and "payouts s (record_uuid env) = None"
    and "validators s (r_ValidatorID req) = Some v"
    and "executeSolanaTransfer (solana env) (r_PublicKey req) (r_Amount req) = Inr signature"
    and "polls env = pre @ SignatureStatus Finalized (Some e) # rest"
    and "list_all undecided pre"
    and "\<not> mark_fault env"
  shows "processPayoutRequest env body s =
     (s\<lparr>payouts := (payouts s)(record_uuid env \<mapsto>
           \<lparr>p_ValidatorID = r_ValidatorID req, p_Amount = r_Amount req,
            p_Status = ''completed'', p_TxSignature = signature, p_ErrorMessage = [],
            p_CreatedAt = clock env 0, p_UpdatedAt = clock env 2\<rparr>)\<rparr>,
      Ack)"
proof -
  from assms(6,7) have "waitForConfirmation (polls env) = (True, None)"
    by (simp add: waitForConfirmation_skips)
  with assms(1-5,8) show ?thesis
    by (simp add: processPayoutRequest_def Let_def create_payout_def update_payout_def
        dropped_result_def)
qed

text \<open>
  The submission returns the signature \<open>SIG1\<close>; the first poll finds no status, the
  second finds the transaction finalized with an error. The record is \<open>completed\<close> and
  the message is acknowledged.
\<close>

theorem finalized_failure_marked_completed_witness:
  "waitForConfirmation [NoStatus, SignatureStatus Finalized (Some ''InstructionError'')] =
     (True, None) \<and>
   (case processPayoutRequest
           (worker_ok solana_up [NoStatus, SignatureStatus Finalized (Some ''InstructionError'')])
           (PayoutJSON request1) (store_credit 0) of
      (s', a) \<Rightarrow> (map_option p_Status (payouts s' ''P1''),
                  map_option p_TxSignature (payouts s' ''P1''), pending s' ''V1'', a)) =
     (Some ''completed'', Some ''SIG1'', 0, Ack)"
proof -
  let ?ps = "[NoStatus, SignatureStatus Finalized (Some ''InstructionError'')]"
  let ?env = "worker_ok solana_up ?ps"
  have a: "unmarshal_payout (PayoutJSON request1) = Some request1" by simp
  have b: "\<not> insert_fault ?env" "\<not> mark_fault ?env"
    by (simp_all add: worker_ok_def)
  have c: "payouts (store_credit 0) (record_uuid ?env) = None"
    by (simp add: store_credit_def store0_def worker_ok_def)
  have d: "validators (store_credit 0) (r_ValidatorID request1) =
      Some (validator1\<lparr>PendingPayouts := 0\<rparr>)"
    by (simp add: store_credit_def request1_def)
  have t: "executeSolanaTransfer (solana ?env) (r_PublicKey request1) (r_Amount request1) =
      Inr ''SIG1''"
    by (simp add: executeSolanaTransfer_def worker_ok_def solana_up_def)
  have p: "polls ?env = [NoStatus] @ SignatureStatus Finalized (Some ''InstructionError'') # []"
    by (simp add: worker_ok_def)
  have u: "list_all undecided [NoStatus]" by (simp add: undecided_def)
  have w: "waitForConfirmation ?ps = (True, None)" by simp
  from finalized_failure_marked_completed [OF a b(1) c d t p u b(2)] w
  show ?thesis
    by (simp add: pending_def store_credit_def worker_ok_def)
qed

section \<open>The validator agent\<close>

text \<open>
  Claim C8. For every probe task the agent calls the HTTP client with a timeout of 10
  seconds on the task's URL; the status of its reply is \<open>Good\<close> exactly when that call
  returns a response with code 200 and no error (a request that exceeds the timeout
  returns an error), and \<open>Bad\<close> otherwise; the latency of the reply is the elapsed time
  in whole milliseconds, which is not negative when the elapsed time is not.
\<close>

theorem probe_classification:
  "m_Type (validateWebsite get sign elapsed validatorID data) = ''validate'' \<and>
   (\<exists>vi. m_Data (validateWebsite get sign elapsed validatorID data) = ValidateJSON vi \<and>
      (vi_Status vi = ''Good'' \<longleftrightarrow> get \<lparr>Timeout = 10000000000\<rparr> (d_URL data) = GetOk 200) \<and>
      (vi_Status vi = ''Good'' \<or> vi_Status vi = ''Bad'') \<and>
      vi_Latency vi = Milliseconds elapsed \<and>
      (0 \<le> elapsed \<longrightarrow> 0 \<le> vi_Latency vi \<and> vi_Latency vi = elapsed div 1000000) \<and>
      vi_CallbackID vi = d_CallbackID data \<and> vi_WebsiteID vi = d_WebsiteID data \<and>
      vi_ValidatorID vi = validatorID)"
  by (auto simp add: validateWebsite_def Let_def Second_def Milliseconds_def
      split: get_result.splits)

text \<open>
  A probe of a URL that answers 200 after 120.5 milliseconds is reported \<open>Good\<close> with
  latency 120; a probe of a URL that cannot be reached is reported \<open>Bad\<close>.
\<close>

theorem probe_classification_witness:
  "(0::int) \<le> 120500000 \<and>
   m_Data (validateWebsite get_t1 (\<lambda>m. ''sig'') 120500000 ''V1'' probe1) =
     ValidateJSON \<lparr>vi_CallbackID = ''c1'', vi_Status = ''Good'', vi_Latency = 120,
        vi_ValidatorID = ''V1'', vi_WebsiteID = ''T1'', vi_SignedMessage = ''sig''\<rparr> \<and>
   m_Data (validateWebsite get_t1 (\<lambda>m. ''sig'') 120500000 ''V1''
             (probe1\<lparr>d_URL := ''https://down.example''\<rparr>)) =
     ValidateJSON \<lparr>vi_CallbackID = ''c1'', vi_Status = ''Bad'', vi_Latency = 120,
        vi_ValidatorID = ''V1'', vi_WebsiteID = ''T1'', vi_SignedMessage = ''sig''\<rparr>"
proof -
  let ?m = "validateWebsite get_t1 (\<lambda>m. ''sig'') 120500000 ''V1'' probe1"
  let ?b = "validateWebsite get_t1 (\<lambda>m. ''sig'') 120500000 ''V1''
              (probe1\<lparr>d_URL := ''https://down.example''\<rparr>)"
  from probe_classification [of get_t1 "\<lambda>m. ''sig''" 120500000 "''V1''" probe1]
  obtain vi where vi: "m_Data ?m = ValidateJSON vi"
    and g: "vi_Status vi = ''Good'' \<longleftrightarrow>
              get_t1 \<lparr>Timeout = 10000000000\<rparr> (d_URL probe1) = GetOk 200"
    and l: "0 \<le> (120500000::int) \<longrightarrow> vi_Latency vi = 120500000 div 1000000"
    and r: "vi_CallbackID vi = d_CallbackID probe1" "vi_WebsiteID vi = d_WebsiteID probe1"
      "vi_ValidatorID vi = ''V1''"
    by blast
  have s: "vi_SignedMessage vi = ''sig''"
    using vi by (auto simp add: validateWebsite_def Let_def)
  from g have g': "vi_Status vi = ''Good''" by (simp add: get_t1_def probe1_def)
  from l have l': "vi_Latency vi = 120" by simp
  have "vi = \<lparr>vi_CallbackID = ''c1'', vi_Status = ''Good'', vi_Latency = 120,
        vi_ValidatorID = ''V1'', vi_WebsiteID = ''T1'', vi_SignedMessage = ''sig''\<rparr>"
    using g' l' r s by (cases vi) (simp add: probe1_def)
  with vi have good: "m_Data ?m =
     ValidateJSON \<lparr>vi_CallbackID = ''c1'', vi_Status = ''Good'', vi_Latency = 120,
        vi_ValidatorID = ''V1'', vi_WebsiteID = ''T1'', vi_SignedMessage = ''sig''\<rparr>"
    by simp
  have bad: "m_Data ?b =
     ValidateJSON \<lparr>vi_CallbackID = ''c1'', vi_Status = ''Bad'', vi_Latency = 120,
        vi_ValidatorID = ''V1'', vi_WebsiteID = ''T1'', vi_SignedMessage = ''sig''\<rparr>"
    by (simp add: validateWebsite_def Let_def get_t1_def probe1_def Milliseconds_def)
  from good bad show ?thesis by simp
qed

end
